theory Spec2Isabelle
  imports Main
begin

section \<open>The login page component \<open>hb-login\<close> (class \<open>AppHome\<close>)\<close>

text \<open>
  The component holds the i18next instance it is given through its context property
  \<open>i18n\<close>, and a state field \<open>lang\<close>. Of the i18next instance, \<open>changeLang\<close> and
  \<open>componentWillLoad\<close> read the property \<open>language\<close> and call \<open>changeLanguage\<close>.
  A JavaScript value that may be \<open>undefined\<close> is an option: \<open>language\<close> is
  \<open>undefined\<close> until i18next has detected a language, and \<open>lang\<close> is declared
  without an initial value.
\<close>

record i18next =
  language :: "string option"

text \<open>
  \<open>i18n.changeLanguage(lng)\<close> of the i18next library, called with a language code:
  it assigns the \<open>language\<close> property before it returns (the loading of the
  translation resources, which it starts, is not part of the model).
\<close>

definition changeLanguage :: "string \<Rightarrow> i18next \<Rightarrow> i18next" where
  "changeLanguage lng i = i\<lparr>language := Some lng\<rparr>"

text \<open>
  \<open>document.documentElement.style\<close>: the inline style declaration of the root element,
  a map from property names to values. \<open>setProperty\<close> with an empty value removes the
  property, as the CSS object model has it.
\<close>

type_synonym CSSStyleDeclaration = "string \<rightharpoonup> string"

definition setProperty :: "string \<Rightarrow> string \<Rightarrow> CSSStyleDeclaration \<Rightarrow> CSSStyleDeclaration" where
  "setProperty name v st = (if v = [] then st(name := None) else st(name \<mapsto> v))"

text \<open>
  The state \<open>changeLang\<close> works on: the two fields of the component and the style of
  the document's root element.
\<close>

record AppHome =
  i18n :: i18next
  lang :: "string option"
  documentElement_style :: CSSStyleDeclaration

definition changeLang :: "AppHome \<Rightarrow> AppHome" where
  "changeLang this =
     (let this1 =
        (if language (i18n this) = Some ''nl'' then
           this\<lparr>i18n := changeLanguage ''en'' (i18n this),
                documentElement_style :=
                  setProperty ''--ion-color-primary'' ''red'' (documentElement_style this)\<rparr>
         else
           this\<lparr>i18n := changeLanguage ''nl'' (i18n this),
                documentElement_style :=
                  setProperty ''--ion-color-primary'' ''green'' (documentElement_style this)\<rparr>)
      in this1\<lparr>lang := language (i18n this1)\<rparr>)"

definition componentWillLoad :: "AppHome \<Rightarrow> AppHome" where
  "componentWillLoad this = this\<lparr>lang := language (i18n this)\<rparr>"

text \<open>A loaded login page whose language is Dutch, with no inline style yet.\<close>

definition login_nl :: AppHome where
  "login_nl = componentWillLoad
     \<lparr>i18n = \<lparr>language = Some ''nl''\<rparr>, lang = None, documentElement_style = Map.empty\<rparr>"


section \<open>The root component \<open>hb-app\<close> (class \<open>HbApp\<close>)\<close>












section \<open>Properties of \<open>hb-login\<close>\<close>

lemma language_changeLanguage: "language (changeLanguage lng i) = Some lng"
  by (simp add: changeLanguage_def)

lemma i18n_changeLang:
  "i18n (changeLang this) =
     changeLanguage (if language (i18n this) = Some ''nl'' then ''en'' else ''nl'') (i18n this)"
  by (simp add: changeLang_def Let_def)

lemma lang_changeLang: "lang (changeLang this) = language (i18n (changeLang this))"
  by (simp add: changeLang_def Let_def)

lemma style_changeLang:
  "documentElement_style (changeLang this) =
     setProperty ''--ion-color-primary''
       (if language (i18n this) = Some ''nl'' then ''red'' else ''green'')
       (documentElement_style this)"
  by (simp add: changeLang_def Let_def)

lemma language_login_nl: "language (i18n login_nl) = Some ''nl''"
  by (simp add: login_nl_def componentWillLoad_def)

text \<open>
  Claim C2. In every state of the \<open>hb-login\<close> component, \<open>changeLang()\<close> sets the
  language of i18n to \<open>en\<close> when the current language is \<open>nl\<close>, and to \<open>nl\<close> for every
  other current language (\<open>en\<close>, a third language, or none); afterwards the state field
  \<open>lang\<close> of the component equals the new language of i18n.
\<close>

theorem changeLang_sets_language:
  "language (i18n (changeLang this)) =
     Some (if language (i18n this) = Some ''nl'' then ''en'' else ''nl'')
   \<and> lang (changeLang this) = language (i18n (changeLang this))"
  by (simp add: i18n_changeLang language_changeLanguage lang_changeLang)

theorem changeLang_sets_language_witness:
  "language (i18n (changeLang login_nl)) = Some ''en''
   \<and> lang (changeLang login_nl) = Some ''en''"
  using changeLang_sets_language [of login_nl]
  by (simp add: language_login_nl)

text \<open>
  Claim C9. After \<open>changeLang()\<close> the CSS custom property \<open>--ion-color-primary\<close> of the
  root element is \<open>red\<close> exactly when the new language is \<open>en\<close>, and \<open>green\<close> exactly
  when the new language is \<open>nl\<close>; and from a language that is \<open>nl\<close> or \<open>en\<close>, two calls
  of \<open>changeLang()\<close> give the language they started from.
\<close>

theorem changeLang_colour_involution:
  "(documentElement_style (changeLang this) ''--ion-color-primary'' = Some ''red''
      \<longleftrightarrow> language (i18n (changeLang this)) = Some ''en'')
   \<and> (documentElement_style (changeLang this) ''--ion-color-primary'' = Some ''green''
      \<longleftrightarrow> language (i18n (changeLang this)) = Some ''nl'')
   \<and> (language (i18n this) \<in> {Some ''nl'', Some ''en''}
      \<longrightarrow> language (i18n (changeLang (changeLang this))) = language (i18n this)
        \<and> lang (changeLang (changeLang this)) = language (i18n this))"
  by (auto simp add: i18n_changeLang language_changeLanguage lang_changeLang
      style_changeLang setProperty_def)

theorem changeLang_colour_involution_witness:
  "documentElement_style (changeLang login_nl) ''--ion-color-primary'' = Some ''red''
   \<and> language (i18n (changeLang (changeLang login_nl))) = Some ''nl''
   \<and> lang (changeLang (changeLang login_nl)) = Some ''nl''"
  using changeLang_colour_involution [of login_nl]
  by (simp add: language_login_nl i18n_changeLang language_changeLanguage)


section \<open>Properties of \<open>hb-app\<close>\<close>







end
